theory Spec2Isabelle
  imports Complex_Main
begin

section \<open>API 682 seal selection: the rule evaluator of app.py\<close>

text \<open>
  The selection logic of \<^verbatim>\<open>app.py\<close> is five module-level functions and a short
  script that calls them on the values of the input widgets. Numeric inputs are the finite
  floats of bounded number inputs; the code only compares them with integer constants, and
  such comparisons are exact, so they are rationals here. Strings are Python strings over
  ASCII. A value that may be \<^verbatim>\<open>None\<close>, an integer or a string at run time (the mandated
  arrangement and the arrangement computed from it) is a \<open>pyval\<close>.
\<close>

subsection \<open>Python values, errors and string containment\<close>

datatype pyval = PNone | PInt int | PStr string

datatype error = KeyError | NameError

text \<open>Truth value of \<^verbatim>\<open>if v:\<close>.\<close>

fun truthy :: "pyval \<Rightarrow> bool" where
  "truthy PNone = False"
| "truthy (PInt n) = (n \<noteq> 0)"
| "truthy (PStr s) = (s \<noteq> [])"

text \<open>\<^verbatim>\<open>v in [a, b, ...]\<close>: equality with some element; a string never equals an integer.\<close>

primrec py_in :: "pyval \<Rightarrow> pyval list \<Rightarrow> bool" where
  "py_in v [] = False"
| "py_in v (x # xs) = (v = x \<or> py_in v xs)"

text \<open>\<^verbatim>\<open>any(bs)\<close> on a list of booleans.\<close>

primrec any_py :: "bool list \<Rightarrow> bool" where
  "any_py [] = False"
| "any_py (b # bs) = (b \<or> any_py bs)"

fun starts_with :: "string \<Rightarrow> string \<Rightarrow> bool" where
  "starts_with [] s = True"
| "starts_with (p # ps) [] = False"
| "starts_with (p # ps) (c # cs) = (p = c \<and> starts_with ps cs)"

text \<open>\<^verbatim>\<open>sub in s\<close> on strings: \<open>sub\<close> occurs in \<open>s\<close> as a contiguous, case-sensitive run.\<close>

fun str_in :: "string \<Rightarrow> string \<Rightarrow> bool" where
  "str_in sub [] = (sub = [])"
| "str_in sub (c # cs) = (starts_with sub (c # cs) \<or> str_in sub cs)"

subsection \<open>Constants\<close>

text \<open>\<^verbatim>\<open>CATEGORY_LIMITS\<close>: a dictionary from the category to a dictionary of its limits.\<close>

definition CATEGORY_LIMITS :: "(nat \<times> (string \<times> int) list) list" where
  "CATEGORY_LIMITS =
    [(1, [(''pressure'', 20), (''temp'', 260), (''speed'', 20)]),
     (2, [(''pressure'', 40), (''temp'', 400), (''speed'', 25)]),
     (3, [(''pressure'', 100), (''temp'', 400), (''speed'', 25)])]"

text \<open>\<^verbatim>\<open>CATEGORY_LIMITS[cat][key]\<close>; a missing key raises \<^verbatim>\<open>KeyError\<close>.\<close>

definition limit :: "nat \<Rightarrow> string \<Rightarrow> error + int" where
  "limit cat key =
    (case map_of CATEGORY_LIMITS cat of
       None \<Rightarrow> Inl KeyError
     | Some d \<Rightarrow> (case map_of d key of None \<Rightarrow> Inl KeyError | Some v \<Rightarrow> Inr v))"

subsection \<open>The selection functions\<close>

text \<open>
  The loop of \<^verbatim>\<open>get_seal_category\<close> over the categories still to try. The three
  comparisons are joined by \<^verbatim>\<open>and\<close>, so a limit is only looked up when the comparisons
  before it held. \<open>Inr None\<close> is the \<^verbatim>\<open>return None\<close> after the loop.
\<close>

fun category_loop :: "nat list \<Rightarrow> rat \<Rightarrow> rat \<Rightarrow> rat \<Rightarrow> error + nat option" where
  "category_loop [] p t s = Inr None"
| "category_loop (cat # cats) p t s =
    (case limit cat ''pressure'' of
       Inl e \<Rightarrow> Inl e
     | Inr lp \<Rightarrow>
        if \<not> p \<le> of_int lp then category_loop cats p t s
        else (case limit cat ''temp'' of
                Inl e \<Rightarrow> Inl e
              | Inr lt \<Rightarrow>
                 if \<not> t \<le> of_int lt then category_loop cats p t s
                 else (case limit cat ''speed'' of
                         Inl e \<Rightarrow> Inl e
                       | Inr ls \<Rightarrow>
                          if s \<le> of_int ls then Inr (Some cat)
                          else category_loop cats p t s)))"

definition get_seal_category :: "rat \<Rightarrow> rat \<Rightarrow> rat \<Rightarrow> error + nat option" where
  "get_seal_category p t s = category_loop [1, 2, 3] p t s"

definition get_fluid_type_group :: "string \<Rightarrow> bool \<Rightarrow> string" where
  "get_fluid_type_group ft is_fl =
    (if ft = ''Hydrocarbon''
     then (if is_fl then ''Flashing Hydrocarbon'' else ''Nonflashing Hydrocarbon'')
     else ''Nonhydrocarbon'')"

text \<open>
  \<^verbatim>\<open>get_seal_type(fluid_group, temp, pressure, category, contaminants)\<close>; the last two
  parameters are not read.
\<close>

definition get_seal_type ::
  "string \<Rightarrow> rat \<Rightarrow> rat \<Rightarrow> nat option \<Rightarrow> (string \<times> bool) list \<Rightarrow> string" where
  "get_seal_type fg t p cat conts =
    (if fg = ''Nonhydrocarbon'' then
       (if t < 80 then (if p < 20 then ''Type B'' else ''Engineered System'')
        else ''Engineered System'')
     else if str_in ''Hydrocarbon'' fg then
       (if str_in ''Nonflashing'' fg then
          (if t < 176 then (if p < 20 then ''Type A'' else ''Type C'')
           else if t < 280 then (if p < 20 then ''Type C'' else ''Engineered System'')
           else ''Engineered System'')
        else
          (if t < 176 then (if p < 20 then ''Type A'' else ''Type C'')
           else if t < 260 then (if p < 20 then ''Type C'' else ''Engineered System'')
           else ''Engineered System''))
     else ''Type A'')"

text \<open>
  The module-level names a function body reads besides its parameters. \<^verbatim>\<open>get_arrangement\<close>
  reads \<^verbatim>\<open>contaminants\<close>, a dictionary from the contaminant to its checkbox, which the
  script binds before the call; \<open>None\<close> is the name not bound yet.
\<close>

record globals =
  contaminants :: "(string \<times> bool) list option"

text \<open>
  \<^verbatim>\<open>get_arrangement\<close>, with the module state first and then the twelve parameters in the
  order of the source: fluid_group, exposure_hazard, vapor_risk, environmental_limits,
  solids, polymerizing, poor_lubricity, low_density, high_vapor_pressure, temp,
  zero_leakage, mandated_arrangement. \<open>special_case\<close> is the condition
  \<^verbatim>\<open>fluid_group == "Nonhydrocarbon" and any(contaminants.values())\<close>: the global is
  only read when the fluid group is \<^verbatim>\<open>"Nonhydrocarbon"\<close>, and reading it unbound
  raises \<^verbatim>\<open>NameError\<close>.
\<close>

definition special_case :: "globals \<Rightarrow> string \<Rightarrow> error + bool" where
  "special_case g fg =
    (if fg = ''Nonhydrocarbon''
     then (case contaminants g of
             None \<Rightarrow> Inl NameError
           | Some d \<Rightarrow> Inr (any_py (map snd d)))
     else Inr False)"

definition get_arrangement ::
  "globals \<Rightarrow> string \<Rightarrow> bool \<Rightarrow> bool \<Rightarrow> bool \<Rightarrow> bool \<Rightarrow> bool \<Rightarrow> bool \<Rightarrow> bool \<Rightarrow> bool \<Rightarrow> rat \<Rightarrow> bool
     \<Rightarrow> pyval \<Rightarrow> error + pyval" where
  "get_arrangement g fg eh vr el so po pl ld hv t zl m =
    (if truthy m then Inr m
     else (case special_case g fg of
             Inl e \<Rightarrow> Inl e
           | Inr special \<Rightarrow>
              if special then Inr (PInt 3)
              else if zl \<or> eh \<or> vr \<or> el \<or> t > 260 \<or> so \<or> po \<or> pl \<or> ld \<or> hv
                then Inr (PInt 3)
              else if any_py [so, po, pl, ld, hv] then Inr (PInt 2)
              else Inr (PInt 1)))"

definition get_barrier_fluid_recommendation :: "string \<Rightarrow> string \<Rightarrow> string" where
  "get_barrier_fluid_recommendation ft tr =
    (if str_in ''Hydrocarbon'' ft then
       (if tr = ''Low'' then ''Mineral oil (2-10 cSt at operating temp)''
        else if tr = ''Medium'' then ''Paraffin-based high purity oil''
        else ''Synthetic-based oil'')
     else ''Water/ethylene glycol mixture (commercial antifreeze prohibited)'')"

subsection \<open>The script\<close>

text \<open>
  The values of the input widgets: three bounded number inputs, the fluid type select box
  (\<^verbatim>\<open>"Hydrocarbon"\<close> or \<^verbatim>\<open>"Nonhydrocarbon"\<close>), the checkboxes, and the
  mandated-arrangement select box, whose options are \<^verbatim>\<open>None\<close>,
  \<^verbatim>\<open>"Arrangement 1"\<close>, \<^verbatim>\<open>"Arrangement 2"\<close> and \<^verbatim>\<open>"Arrangement 3"\<close>.
\<close>

record ui_input =
  pressure :: rat
  temperature :: rat
  speed :: rat
  fluid_type :: string
  is_flashing :: bool
  hazardous :: bool
  toxic :: bool
  flammable :: bool
  abrasive :: bool
  polymerizing :: bool
  poor_lubricity :: bool
  caustic :: bool
  h2s :: bool
  amines :: bool
  ammonia :: bool
  exposure_hazard :: bool
  vapor_risk :: bool
  environmental_limits :: bool
  monitoring_required :: bool
  zero_leakage :: bool
  low_density :: bool
  high_vapor_pressure :: bool
  mandated_arrangement :: pyval

text \<open>What the script computes before it renders: lines 165 to 182.\<close>

record recommendation =
  category :: "nat option"
  fluid_group :: string
  seal_type :: string
  arrangement :: pyval
  barrier_fluid :: string

text \<open>The dictionary the script binds to the global \<^verbatim>\<open>contaminants\<close>.\<close>

definition contaminants_dict :: "bool \<Rightarrow> bool \<Rightarrow> bool \<Rightarrow> bool \<Rightarrow> bool \<Rightarrow> (string \<times> bool) list" where
  "contaminants_dict ca hs am an ab =
    [(''caustic'', ca), (''h2s'', hs), (''amines'', am), (''ammonia'', an), (''abrasive'', ab)]"

definition temp_range :: "rat \<Rightarrow> string" where
  "temp_range t = (if t < 70 then ''Low'' else if t < 150 then ''Medium'' else ''High'')"

definition run_app :: "ui_input \<Rightarrow> error + recommendation" where
  "run_app inp =
    (case get_seal_category (pressure inp) (temperature inp) (speed inp) of
       Inl e \<Rightarrow> Inl e
     | Inr cat \<Rightarrow>
        (let fg = get_fluid_type_group (fluid_type inp) (is_flashing inp);
             d = contaminants_dict (caustic inp) (h2s inp) (amines inp) (ammonia inp)
                   (abrasive inp);
             st = get_seal_type fg (temperature inp) (pressure inp) cat d
         in (case get_arrangement \<lparr>contaminants = Some d\<rparr> fg (exposure_hazard inp)
                    (vapor_risk inp) (environmental_limits inp) (abrasive inp)
                    (polymerizing inp) (poor_lubricity inp) (low_density inp)
                    (high_vapor_pressure inp) (temperature inp) (zero_leakage inp)
                    (mandated_arrangement inp) of
               Inl e \<Rightarrow> Inl e
             | Inr arr \<Rightarrow>
                Inr \<lparr>category = cat, fluid_group = fg, seal_type = st, arrangement = arr,
                     barrier_fluid =
                       (if py_in arr [PInt 2, PInt 3]
                        then get_barrier_fluid_recommendation (fluid_type inp)
                               (temp_range (temperature inp))
                        else ''Not required'')\<rparr>)))"

text \<open>The widgets as the page first shows them, and the same with a mandate selected.\<close>

definition default_input :: ui_input where
  "default_input =
    \<lparr>pressure = 15, temperature = 100, speed = 10, fluid_type = ''Hydrocarbon'',
     is_flashing = False, hazardous = False, toxic = False, flammable = False,
     abrasive = False, polymerizing = False, poor_lubricity = False, caustic = False,
     h2s = False, amines = False, ammonia = False, exposure_hazard = False,
     vapor_risk = False, environmental_limits = False, monitoring_required = False,
     zero_leakage = False, low_density = False, high_vapor_pressure = False,
     mandated_arrangement = PNone\<rparr>"

definition mandated_input :: ui_input where
  "mandated_input = default_input\<lparr>mandated_arrangement := PStr ''Arrangement 2''\<rparr>"

definition zero_leakage_input :: ui_input where
  "zero_leakage_input = default_input\<lparr>zero_leakage := True\<rparr>"

text \<open>Two module states that differ only in the dictionary bound to \<^verbatim>\<open>contaminants\<close>.\<close>

definition caustic_globals :: globals where
  "caustic_globals = \<lparr>contaminants = Some (contaminants_dict True False False False False)\<rparr>"

definition clean_globals :: globals where
  "clean_globals = \<lparr>contaminants = Some (contaminants_dict False False False False False)\<rparr>"

section \<open>Helper lemmas\<close>

lemma limit_simps:
  "limit (Suc 0) ''pressure'' = Inr 20" "limit (Suc 0) ''temp'' = Inr 260"
  "limit (Suc 0) ''speed'' = Inr 20"
  "limit 2 ''pressure'' = Inr 40" "limit 2 ''temp'' = Inr 400" "limit 2 ''speed'' = Inr 25"
  "limit 3 ''pressure'' = Inr 100" "limit 3 ''temp'' = Inr 400" "limit 3 ''speed'' = Inr 25"
  by (simp_all add: limit_def CATEGORY_LIMITS_def)

lemma get_seal_category_eq:
  "get_seal_category p t s =
    Inr (if p \<le> 20 \<and> t \<le> 260 \<and> s \<le> 20 then Some 1
         else if p \<le> 40 \<and> t \<le> 400 \<and> s \<le> 25 then Some 2
         else if p \<le> 100 \<and> t \<le> 400 \<and> s \<le> 25 then Some 3
         else None)"
  by (auto simp add: get_seal_category_def limit_simps)

lemma str_in_groups:
  "str_in ''Hydrocarbon'' ''Hydrocarbon''"
  "\<not> str_in ''Hydrocarbon'' ''Nonhydrocarbon''"
  "str_in ''Hydrocarbon'' ''Flashing Hydrocarbon''"
  "str_in ''Hydrocarbon'' ''Nonflashing Hydrocarbon''"
  "str_in ''Nonflashing'' ''Nonflashing Hydrocarbon''"
  "\<not> str_in ''Nonflashing'' ''Flashing Hydrocarbon''"
  by simp_all

lemma special_case_bound:
  "special_case \<lparr>contaminants = Some d\<rparr> fg =
     Inr (fg = ''Nonhydrocarbon'' \<and> any_py (map snd d))"
  by (simp add: special_case_def)

lemma get_arrangement_unmandated:
  "\<not> truthy m \<Longrightarrow>
   get_arrangement \<lparr>contaminants = Some d\<rparr> fg eh vr el so po pl ld hv t zl m =
     Inr (PInt (if fg = ''Nonhydrocarbon'' \<and> any_py (map snd d) then 3
                else if zl \<or> eh \<or> vr \<or> el \<or> t > 260 \<or> so \<or> po \<or> pl \<or> ld \<or> hv then 3
                else 1))"
  by (auto simp add: get_arrangement_def special_case_bound)

lemma get_arrangement_total:
  "\<exists>a. get_arrangement \<lparr>contaminants = Some d\<rparr> fg eh vr el so po pl ld hv t zl m = Inr a"
proof (cases "truthy m")
  case True
  then show ?thesis by (simp add: get_arrangement_def)
next
  case False
  then show ?thesis using get_arrangement_unmandated by blast
qed

lemma run_app_default:
  "run_app default_input =
     Inr \<lparr>category = Some 1, fluid_group = ''Nonflashing Hydrocarbon'', seal_type = ''Type A'',
          arrangement = PInt 1, barrier_fluid = ''Not required''\<rparr>"
  by (simp add: run_app_def default_input_def get_seal_category_eq get_fluid_type_group_def
      get_seal_type_def get_arrangement_unmandated Let_def)

lemma run_app_zero_leakage:
  "run_app zero_leakage_input =
     Inr \<lparr>category = Some 1, fluid_group = ''Nonflashing Hydrocarbon'', seal_type = ''Type A'',
          arrangement = PInt 3, barrier_fluid = ''Paraffin-based high purity oil''\<rparr>"
  by (simp add: run_app_def zero_leakage_input_def default_input_def get_seal_category_eq
      get_fluid_type_group_def get_seal_type_def get_arrangement_unmandated Let_def
      get_barrier_fluid_recommendation_def temp_range_def)

section \<open>The category classifier\<close>

text \<open>
  C1: \<open>get_seal_category\<close> returns the first tier, in the order 1, 2, 3, whose three limits
  (20 bar, 260 C, 20 m/s; 40, 400, 25; 100, 400, 25) all bound the measured values; within
  the limits of tier 1 it returns 1; and it returns \<^verbatim>\<open>None\<close> exactly when the pressure
  is above 100, the temperature above 400 or the speed above 25, as at (150, 450, 30). No
  call raises.
\<close>

theorem get_seal_category_first_tier:
  "get_seal_category p t s =
     Inr (if p \<le> 20 \<and> t \<le> 260 \<and> s \<le> 20 then Some 1
          else if p \<le> 40 \<and> t \<le> 400 \<and> s \<le> 25 then Some 2
          else if p \<le> 100 \<and> t \<le> 400 \<and> s \<le> 25 then Some 3
          else None)
   \<and> (p \<le> 20 \<and> t \<le> 260 \<and> s \<le> 20 \<longrightarrow> get_seal_category p t s = Inr (Some 1))
   \<and> (get_seal_category p t s = Inr None \<longleftrightarrow> p > 100 \<or> t > 400 \<or> s > 25)
   \<and> get_seal_category 150 450 30 = Inr None"
  unfolding get_seal_category_eq by auto

theorem get_seal_category_first_tier_witness:
  "(15::rat) \<le> 20 \<and> (100::rat) \<le> 260 \<and> (10::rat) \<le> 20
   \<and> get_seal_category 15 100 10 = Inr (Some 1)
   \<and> get_seal_category 150 450 30 = Inr None"
  using get_seal_category_first_tier [of 15 100 10] by simp

section \<open>The fluid group\<close>

text \<open>
  C9: \<open>get_fluid_type_group\<close> maps \<^verbatim>\<open>"Hydrocarbon"\<close> to \<^verbatim>\<open>"Flashing Hydrocarbon"\<close>
  when the flashing flag is set and to \<^verbatim>\<open>"Nonflashing Hydrocarbon"\<close> when it is not,
  and maps \<^verbatim>\<open>"Nonhydrocarbon"\<close> to \<^verbatim>\<open>"Nonhydrocarbon"\<close> whatever the flag.
\<close>

theorem get_fluid_type_group_mapping:
  "get_fluid_type_group ''Hydrocarbon'' True = ''Flashing Hydrocarbon''
   \<and> get_fluid_type_group ''Hydrocarbon'' False = ''Nonflashing Hydrocarbon''
   \<and> get_fluid_type_group ''Nonhydrocarbon'' is_fl = ''Nonhydrocarbon''"
  by (simp add: get_fluid_type_group_def)

theorem get_fluid_type_group_mapping_witness:
  "get_fluid_type_group ''Nonhydrocarbon'' True = ''Nonhydrocarbon''
   \<and> get_fluid_type_group ''Nonhydrocarbon'' False = ''Nonhydrocarbon''"
  using get_fluid_type_group_mapping [of True] get_fluid_type_group_mapping [of False]
  by simp

section \<open>The seal type\<close>

text \<open>
  C2: for each of the three fluid groups and all temperatures and pressures,
  \<open>get_seal_type\<close> follows its branch table. Nonhydrocarbon: below 80 degrees Type B when
  the pressure is below 20 and Engineered System otherwise, from 80 degrees on Engineered
  System. Nonflashing hydrocarbon: below 176 degrees Type A when the pressure is below 20 and
  Type C otherwise; from 176 and below 280 Type C when the pressure is below 20 and Engineered
  System otherwise; from 280 on Engineered System. Flashing hydrocarbon: the same with 260
  for 280. Every comparison is strict, so a temperature of exactly 176, or a pressure of
  exactly 20, falls to the next bracket.
\<close>

theorem get_seal_type_tables:
  "get_seal_type ''Nonhydrocarbon'' t p cat conts =
     (if t < 80 then (if p < 20 then ''Type B'' else ''Engineered System'')
      else ''Engineered System'')
   \<and> get_seal_type ''Nonflashing Hydrocarbon'' t p cat conts =
     (if t < 176 then (if p < 20 then ''Type A'' else ''Type C'')
      else if t < 280 then (if p < 20 then ''Type C'' else ''Engineered System'')
      else ''Engineered System'')
   \<and> get_seal_type ''Flashing Hydrocarbon'' t p cat conts =
     (if t < 176 then (if p < 20 then ''Type A'' else ''Type C'')
      else if t < 260 then (if p < 20 then ''Type C'' else ''Engineered System'')
      else ''Engineered System'')
   \<and> get_seal_type ''Nonflashing Hydrocarbon'' 176 10 cat conts = ''Type C''
   \<and> get_seal_type ''Nonflashing Hydrocarbon'' 100 20 cat conts = ''Type C''
   \<and> get_seal_type ''Nonhydrocarbon'' 80 10 cat conts = ''Engineered System''
   \<and> get_seal_type ''Flashing Hydrocarbon'' 260 10 cat conts = ''Engineered System''"
  by (simp add: get_seal_type_def)

theorem get_seal_type_tables_witness:
  "get_seal_type ''Nonflashing Hydrocarbon'' 100 10 (Some 1) [] = ''Type A''
   \<and> get_seal_type ''Nonflashing Hydrocarbon'' 100 30 (Some 2) [] = ''Type C''
   \<and> get_seal_type ''Flashing Hydrocarbon'' 265 5 (Some 2) [] = ''Engineered System''"
  using get_seal_type_tables [of 100 10 "Some 1" "[]"]
    get_seal_type_tables [of 100 30 "Some 2" "[]"]
    get_seal_type_tables [of 265 5 "Some 2" "[]"]
  by simp

section \<open>The arrangement\<close>

text \<open>
  C3: with no mandated arrangement, and the module-level dictionary bound to the five
  contaminant flags as the script binds it, \<open>get_arrangement\<close> applies its rules in order
  and the first that matches wins: 3 when the fluid group is Nonhydrocarbon and a contaminant
  flag (caustic, H2S, amines, ammonia, abrasive) is set; else 3 when zero leakage, exposure
  hazard, vapor risk, environmental limits, a temperature above 260, solids, polymerizing,
  poor lubricity, low density or high vapor pressure holds; else 2 when solids,
  polymerizing, poor lubricity, low density or high vapor pressure holds; else 1.
\<close>

theorem get_arrangement_rules:
  "get_arrangement \<lparr>contaminants = Some (contaminants_dict ca hs am an ab)\<rparr>
       fg eh vr el so po pl ld hv t zl PNone =
     Inr (PInt (if fg = ''Nonhydrocarbon'' \<and> (ca \<or> hs \<or> am \<or> an \<or> ab) then 3
                else if zl \<or> eh \<or> vr \<or> el \<or> t > 260 \<or> so \<or> po \<or> pl \<or> ld \<or> hv then 3
                else if so \<or> po \<or> pl \<or> ld \<or> hv then 2
                else 1))"
  by (auto simp add: get_arrangement_def special_case_bound contaminants_dict_def)

theorem get_arrangement_rules_witness:
  "get_arrangement \<lparr>contaminants = Some (contaminants_dict True False False False False)\<rparr>
       ''Nonhydrocarbon'' False False False False False False False False 100 False PNone =
     Inr (PInt 3)
   \<and> get_arrangement \<lparr>contaminants = Some (contaminants_dict False False False False False)\<rparr>
       ''Nonhydrocarbon'' False False False False False False False False 100 False PNone =
     Inr (PInt 1)"
  using get_arrangement_rules [of True False False False False "''Nonhydrocarbon''"
      False False False False False False False False 100 False]
    get_arrangement_rules [of False False False False False "''Nonhydrocarbon''"
      False False False False False False False False 100 False]
  by simp

text \<open>
  C4: a mandated arrangement that is set is returned as it is, whatever the module state,
  the fluid group, the flags and the temperature: a mandate of 2 gives 2 for every
  combination of the other arguments, zero leakage included.
\<close>

theorem get_arrangement_mandated:
  "(truthy m \<longrightarrow> get_arrangement g fg eh vr el so po pl ld hv t zl m = Inr m)
   \<and> get_arrangement g fg eh vr el so po pl ld hv t zl (PInt 2) = Inr (PInt 2)
   \<and> get_arrangement g fg eh vr el so po pl ld hv t True (PInt 2) = Inr (PInt 2)"
  by (simp add: get_arrangement_def)

theorem get_arrangement_mandated_witness:
  "truthy (PInt 2)
   \<and> get_arrangement caustic_globals ''Nonhydrocarbon'' True True True True True True True
       True 300 True (PInt 2) = Inr (PInt 2)"
  using get_arrangement_mandated [of "PInt 2" caustic_globals "''Nonhydrocarbon''"
      True True True True True True True True 300 True]
  by simp

text \<open>
  C10: with no mandated arrangement \<open>get_arrangement\<close> never returns 2. Each flag of the
  rule for 2 is also a flag of the rule for 3 before it, so when the rule for 2 would
  match, the rule for 3 has returned already; when the module-level dictionary is bound the
  result is 1 or 3.
\<close>

theorem get_arrangement_never_two:
  "\<not> truthy m \<Longrightarrow>
   get_arrangement g fg eh vr el so po pl ld hv t zl m \<noteq> Inr (PInt 2)
   \<and> (contaminants g \<noteq> None \<longrightarrow>
        get_arrangement g fg eh vr el so po pl ld hv t zl m = Inr (PInt 1)
        \<or> get_arrangement g fg eh vr el so po pl ld hv t zl m = Inr (PInt 3))"
  by (auto simp add: get_arrangement_def special_case_def split: option.splits)

theorem get_arrangement_never_two_witness:
  "\<not> truthy PNone \<and> contaminants clean_globals \<noteq> None
   \<and> get_arrangement clean_globals ''Flashing Hydrocarbon'' False False False True False
       False False False 100 False PNone = Inr (PInt 3)"
  using get_arrangement_never_two [of PNone clean_globals "''Flashing Hydrocarbon''"
      False False False True False False False False 100 False]
  by (simp add: clean_globals_def get_arrangement_def special_case_def)

text \<open>
  C6: the result of \<open>get_arrangement\<close> is not a function of its twelve arguments alone.
  The contaminants are not among them: the body reads the module-level dictionary, and two
  calls with the same arguments return 3 under one module state and 1 under another.
\<close>

theorem get_arrangement_reads_global:
  "get_arrangement caustic_globals ''Nonhydrocarbon'' False False False False False False
       False False 100 False PNone = Inr (PInt 3)
   \<and> get_arrangement clean_globals ''Nonhydrocarbon'' False False False False False False
       False False 100 False PNone = Inr (PInt 1)
   \<and> get_arrangement \<lparr>contaminants = None\<rparr> ''Nonhydrocarbon'' False False False False
       False False False False 100 False PNone = Inl NameError"
  by (simp add: get_arrangement_def special_case_def caustic_globals_def clean_globals_def
      contaminants_dict_def)

section \<open>The recommendation of the script\<close>

text \<open>
  C5: the arrangement of the recommendation is not always one of 1, 2 and 3. The options of
  the mandated-arrangement select box are the strings \<^verbatim>\<open>"Arrangement 1"\<close> to
  \<^verbatim>\<open>"Arrangement 3"\<close>; \<open>get_arrangement\<close> returns the selected string as it is, so
  with \<^verbatim>\<open>"Arrangement 2"\<close> selected the arrangement is that string, which equals none
  of the integers the script compares it with, and the barrier fluid is not computed.
\<close>

theorem run_app_mandated_arrangement_is_string:
  "run_app mandated_input =
     Inr \<lparr>category = Some 1, fluid_group = ''Nonflashing Hydrocarbon'', seal_type = ''Type A'',
          arrangement = PStr ''Arrangement 2'', barrier_fluid = ''Not required''\<rparr>
   \<and> \<not> py_in (PStr ''Arrangement 2'') [PInt 1, PInt 2, PInt 3]"
  by (simp add: run_app_def mandated_input_def default_input_def get_seal_category_eq
      get_fluid_type_group_def get_seal_type_def get_arrangement_def Let_def)

text \<open>
  C7, as the claim states it: with the widgets as the page first shows them the arrangement
  is 1, and the barrier fluid is the text \<^verbatim>\<open>"Not required"\<close> with a capital N, not
  \<^verbatim>\<open>"not required"\<close>.
\<close>

theorem barrier_fluid_literal_counterexample:
  "run_app default_input =
     Inr \<lparr>category = Some 1, fluid_group = ''Nonflashing Hydrocarbon'', seal_type = ''Type A'',
          arrangement = PInt 1, barrier_fluid = ''Not required''\<rparr>
   \<and> ''Not required'' \<noteq> ''not required''"
  by (simp add: run_app_default)

text \<open>
  C7, amended: every run of the script produces a recommendation; its barrier fluid differs
  from the text \<^verbatim>\<open>"Not required"\<close> only when the arrangement is 2 or 3, and for
  arrangement 1 it is exactly \<^verbatim>\<open>"Not required"\<close>.
\<close>

theorem barrier_fluid_only_for_2_3:
  "\<exists>r. run_app inp = Inr r
     \<and> (barrier_fluid r \<noteq> ''Not required'' \<longrightarrow> arrangement r = PInt 2 \<or> arrangement r = PInt 3)
     \<and> (arrangement r = PInt 1 \<longrightarrow> barrier_fluid r = ''Not required'')"
proof -
  obtain c where c: "get_seal_category (pressure inp) (temperature inp) (speed inp) = Inr c"
    by (simp add: get_seal_category_eq)
  obtain a where a:
    "get_arrangement
       \<lparr>contaminants = Some (contaminants_dict (caustic inp) (h2s inp) (amines inp)
          (ammonia inp) (abrasive inp))\<rparr>
       (get_fluid_type_group (fluid_type inp) (is_flashing inp)) (exposure_hazard inp)
       (vapor_risk inp) (environmental_limits inp) (abrasive inp) (polymerizing inp)
       (poor_lubricity inp) (low_density inp) (high_vapor_pressure inp) (temperature inp)
       (zero_leakage inp) (mandated_arrangement inp) = Inr a"
    using get_arrangement_total by blast
  show ?thesis
    by (simp add: run_app_def c a Let_def)
qed

theorem barrier_fluid_only_for_2_3_witness:
  "(\<exists>r. run_app default_input = Inr r \<and> arrangement r = PInt 1
        \<and> barrier_fluid r = ''Not required'')
   \<and> (\<exists>r. run_app zero_leakage_input = Inr r \<and> barrier_fluid r \<noteq> ''Not required''
        \<and> arrangement r = PInt 3)"
  using barrier_fluid_only_for_2_3 [of default_input]
    barrier_fluid_only_for_2_3 [of zero_leakage_input]
  by (simp add: run_app_default run_app_zero_leakage)

section \<open>The barrier fluid\<close>

text \<open>
  C8, as the claim states it: for a hydrocarbon in the medium band the text returned is
  \<^verbatim>\<open>"Paraffin-based high purity oil"\<close>, not \<^verbatim>\<open>"Paraffin-based high-purity oil"\<close>, and
  for a nonhydrocarbon it is \<^verbatim>\<open>"Water/ethylene glycol mixture (commercial antifreeze
  prohibited)"\<close>, with no hyphen in \<^verbatim>\<open>ethylene glycol\<close>.
\<close>

theorem barrier_fluid_texts_counterexample:
  "get_barrier_fluid_recommendation ''Hydrocarbon'' (temp_range 100)
     \<noteq> ''Paraffin-based high-purity oil''
   \<and> get_barrier_fluid_recommendation ''Nonhydrocarbon'' (temp_range 100)
     \<noteq> ''Water/ethylene-glycol mixture (commercial antifreeze prohibited)''"
  by (simp add: get_barrier_fluid_recommendation_def temp_range_def)

text \<open>
  C8, amended: for a fluid type that contains \<^verbatim>\<open>"Hydrocarbon"\<close>, as the fluid type
  \<^verbatim>\<open>"Hydrocarbon"\<close> does, \<open>get_barrier_fluid_recommendation\<close> on the band of the
  temperature returns \<^verbatim>\<open>"Mineral oil (2-10 cSt at operating temp)"\<close> below 70 degrees,
  \<^verbatim>\<open>"Paraffin-based high purity oil"\<close> from 70 and below 150, and
  \<^verbatim>\<open>"Synthetic-based oil"\<close> from 150 on; for the fluid type \<^verbatim>\<open>"Nonhydrocarbon"\<close> and
  any band it returns \<^verbatim>\<open>"Water/ethylene glycol mixture (commercial antifreeze
  prohibited)"\<close>.
\<close>

theorem barrier_fluid_by_band:
  "(str_in ''Hydrocarbon'' ft \<longrightarrow>
      get_barrier_fluid_recommendation ft (temp_range t) =
        (if t < 70 then ''Mineral oil (2-10 cSt at operating temp)''
         else if t < 150 then ''Paraffin-based high purity oil''
         else ''Synthetic-based oil''))
   \<and> get_barrier_fluid_recommendation ''Hydrocarbon'' (temp_range t) =
        (if t < 70 then ''Mineral oil (2-10 cSt at operating temp)''
         else if t < 150 then ''Paraffin-based high purity oil''
         else ''Synthetic-based oil'')
   \<and> get_barrier_fluid_recommendation ''Nonhydrocarbon'' tr =
        ''Water/ethylene glycol mixture (commercial antifreeze prohibited)''"
  by (simp add: get_barrier_fluid_recommendation_def temp_range_def)

theorem barrier_fluid_by_band_witness:
  "str_in ''Hydrocarbon'' ''Flashing Hydrocarbon''
   \<and> get_barrier_fluid_recommendation ''Flashing Hydrocarbon'' (temp_range 50) =
       ''Mineral oil (2-10 cSt at operating temp)''
   \<and> get_barrier_fluid_recommendation ''Hydrocarbon'' (temp_range 70) =
       ''Paraffin-based high purity oil''
   \<and> get_barrier_fluid_recommendation ''Hydrocarbon'' (temp_range 150) = ''Synthetic-based oil''"
  using barrier_fluid_by_band [of "''Flashing Hydrocarbon''" 50]
    barrier_fluid_by_band [of "''Hydrocarbon''" 70]
    barrier_fluid_by_band [of "''Hydrocarbon''" 150]
  by simp

end
